theory Spec2Isabelle
  imports Main "HOL-Library.Word"
begin

section \<open>ImageController: upload, delete and purge of stored assets\<close>

text \<open>
  A shallow embedding of the three actions of the controller (\<open>upload\<close>, \<open>delete\<close>,
  \<open>purge\<close>). Each action is a function from the request and the world it runs in to the
  response it sends and the world it leaves. The world holds the asset directory, the
  dependent records kept by the registry and the trace of every decoder call, filesystem
  mutation, registry call and log line the action makes. What the controller cannot decide
  by itself (the image decoder, the random identifier, the clock, the replies of the
  registry, I/O faults of the filesystem) is read from an environment record, so every
  \<open>try\<close>/\<open>catch\<close> of the source is a branch here. Line numbers refer to the controller.
\<close>

subsection \<open>Values exchanged with the collaborators\<close>

type_synonym buffer = "8 word list"

text \<open>A JSON object of which only string-valued top-level members are read; \<open>{}\<close> is \<open>[]\<close>.\<close>

type_synonym json_object = "(string \<times> string) list"

text \<open>
  The outcome of an \<open>axios\<close> call: the promise resolves with a status and a body, or it
  rejects, with \<open>err.response.status\<close> when the server answered and without \<open>err.response\<close>
  when it did not.
\<close>

datatype 'a axios = Resolved nat 'a | Rejected "nat option"

text \<open>Result of \<open>sharp(buffer).metadata()\<close>; only \<open>format\<close> is read.\<close>

record metadata =
  format :: string

text \<open>One element of \<open>uploadedFiles\<close> as skipper hands it over; \<open>fd\<close> stands for the bytes
  that \<open>fs.readFileSync(uploadedFiles[0].fd)\<close> returns.\<close>

record uploaded_file =
  fd :: buffer
  filename :: "string option"
  ftype :: "string option"

text \<open>\<open>req.body\<close> and the files of the field \<open>image\<close>.\<close>

record upload_request =
  patientId :: "string option"
  practitionerId :: "string option"
  image_field :: "uploaded_file list"

text \<open>\<open>content[i].attachment\<close> of a DocumentReference. \<open>url\<close> is optional on records that
  come back from the registry.\<close>

record attachment =
  contentType :: string
  url :: "string option"
  att_size :: "nat option"
  title :: string
  creation :: string

record document_reference =
  resourceType :: string
  profile :: "string list"
  status :: string
  description :: string
  docStatus :: string
  type_coding :: "(string \<times> string \<times> string) list"
  content :: "attachment list"
  subject :: "string option"
  author :: "string list option"

text \<open>
  What \<open>delete\<close> reads of the fetched DocumentReference: \<open>None\<close> when \<open>docRef.content\<close> cannot be
  iterated, else for each element the string \<open>content.attachment.url\<close>, or \<open>None\<close> when the
  element has no attachment or the attachment no url that is a string.
\<close>

type_synonym fetched_content = "string option list option"

text \<open>
  An element of \<open>supportingInfo\<close>, and a ClinicalImpression. \<open>supportingInfo\<close> is \<open>None\<close> when
  the member is missing or not an array; an element of the array is \<open>None\<close> when it is
  \<open>null\<close>, so that reading its \<open>reference\<close> raises.
\<close>

record reference_entry =
  reference :: "string option"

record clinical_impression =
  ci_id :: string
  supportingInfo :: "reference_entry option list option"

text \<open>
  The body of the answer to the search: \<open>NoEntry\<close> when \<open>response.data\<close> or its \<open>entry\<close> is
  missing, \<open>BadEntry\<close> when \<open>entry.map(entry => entry.resource)\<close> raises (no array, or a
  \<open>null\<close> element), and else the \<open>resource\<close> of each entry, \<open>None\<close> when the entry has none.
\<close>

datatype search_body = NoEntry | BadEntry | Entry "clinical_impression option list"

text \<open>What an action does to its collaborators, in the order it does it: the call of the
  decoder, the attempts to write, unlink and list in the asset directory, the requests sent
  to the registry (with the record sent, or the id in the URL), and the lines written with
  \<open>sails.log.error\<close> and \<open>sails.log.info\<close>.\<close>

datatype effect =
    SharpMetadata
  | FsWrite string
  | FsUnlink string
  | FsReaddir
  | RegPost document_reference
  | RegGetDoc string
  | RegSearch string
  | RegPut string clinical_impression
  | RegDelete string
  | LogError string
  | LogInfo string

text \<open>
  The environment of a run:
  \<^item> \<open>apiBaseUrl\<close>, \<open>fhirServerUrl\<close>: \<open>sails.config.custom\<close>;
  \<^item> \<open>sharp_metadata\<close>: the decoder, \<open>None\<close> when \<open>metadata()\<close> rejects;
    \<open>sharp_toFile\<close> and \<open>sharp_resize_toFile\<close>: the bytes that \<open>toFile\<close> encodes for the full
    image and for the 128 by 128 thumbnail, \<open>None\<close> when sharp rejects;
  \<^item> \<open>randomHex\<close>: \<open>crypto.randomBytes(8).toString('hex')\<close>; \<open>now_iso\<close>, \<open>now_ms\<close>: the clock;
  \<^item> \<open>unicode_toLowerCase\<close>: \<open>String.prototype.toLowerCase\<close> on the strings that hold a
    character outside ASCII (strings are sequences of bytes here, in UTF-8);
  \<^item> \<open>post_reply\<close>, \<open>get_reply\<close>, \<open>search_reply\<close>, \<open>put_reply\<close>, \<open>delete_reply\<close>: the outcome
    of each request to the registry;
  \<^item> \<open>write_fault\<close>, \<open>unlink_fault\<close>, \<open>readdir_fault\<close>: the filesystem operations that fail
    with an I/O error.
\<close>

record env =
  apiBaseUrl :: string
  fhirServerUrl :: string
  sharp_metadata :: "buffer \<Rightarrow> metadata option"
  sharp_toFile :: "buffer \<Rightarrow> buffer option"
  sharp_resize_toFile :: "buffer \<Rightarrow> buffer option"
  randomHex :: string
  unicode_toLowerCase :: "string \<Rightarrow> string"
  now_iso :: string
  now_ms :: nat
  post_reply :: "document_reference \<Rightarrow> json_object axios"
  get_reply :: "string \<Rightarrow> fetched_content axios"
  search_reply :: "string \<Rightarrow> search_body axios"
  put_reply :: "clinical_impression \<Rightarrow> unit axios"
  delete_reply :: "string \<Rightarrow> unit axios"
  write_fault :: "string \<Rightarrow> bool"
  unlink_fault :: "string \<Rightarrow> bool"
  readdir_fault :: bool

text \<open>
  \<open>entries\<close> is the directory \<open>assets/images\<close>: file names with their bytes (a name may
  be listed more than once in the list; the first binding is the file).
  \<open>impressions\<close> is the registry's store of ClinicalImpression records, by id.
\<close>

record world =
  entries :: "(string \<times> buffer) list"
  impressions :: "string \<rightharpoonup> clinical_impression"
  trace :: "effect list"

subsection \<open>Strings and paths\<close>

text \<open>A template literal prints a missing member as \<open>undefined\<close> and \<open>null\<close> as \<open>null\<close>.\<close>

definition tpl_undefined :: "string option \<Rightarrow> string" where
  "tpl_undefined v = (case v of None \<Rightarrow> ''undefined'' | Some s \<Rightarrow> s)"

definition tpl_null :: "string option \<Rightarrow> string" where
  "tpl_null v = (case v of None \<Rightarrow> ''null'' | Some s \<Rightarrow> s)"

text \<open>The truth value of an optional string (a missing and an empty string are falsy),
  and \<open>v || d\<close>.\<close>

definition truthy :: "string option \<Rightarrow> bool" where
  "truthy v = (case v of None \<Rightarrow> False | Some s \<Rightarrow> s \<noteq> [])"

definition or_else :: "string option \<Rightarrow> string \<Rightarrow> string" where
  "or_else v d = (case v of None \<Rightarrow> d | Some s \<Rightarrow> if s = [] then d else s)"

text \<open>
  \<open>toLowerCase\<close>. On a string of ASCII characters it lowers the letters A to Z and keeps
  every other character. On a string with a character outside ASCII the result is the
  one Unicode prescribes, which the environment supplies.
\<close>

definition lower_char :: "char \<Rightarrow> char" where
  "lower_char c =
     (case map_of (zip ''ABCDEFGHIJKLMNOPQRSTUVWXYZ'' ''abcdefghijklmnopqrstuvwxyz'') c of
        None \<Rightarrow> c
      | Some l \<Rightarrow> l)"

definition is_ascii :: "char \<Rightarrow> bool" where
  "is_ascii c = (\<not> digit7 c)"

definition toLowerCase :: "env \<Rightarrow> string \<Rightarrow> string" where
  "toLowerCase ev s = (if list_all is_ascii s then map lower_char s else unicode_toLowerCase ev s)"

text \<open>POSIX \<open>path.basename\<close>: the last portion of the path, trailing separators ignored.\<close>

definition basename :: "string \<Rightarrow> string" where
  "basename p = rev (takeWhile (\<lambda>c. c \<noteq> CHR ''/'') (dropWhile (\<lambda>c. c = CHR ''/'') (rev p)))"

text \<open>
  POSIX \<open>path.extname\<close>: from the last dot of the last portion to its end; empty when that
  portion has no dot, when its only dot is its first character, or when it is \<open>..\<close>.
\<close>

definition extname :: "string \<Rightarrow> string" where
  "extname p =
     (let b = basename p;
          suf = rev (takeWhile (\<lambda>c. c \<noteq> CHR ''.'') (rev b))
      in if CHR ''.'' \<notin> set b then []
         else if length b = Suc (length suf) then []
         else if b = ''..'' then []
         else CHR ''.'' # suf)"

text \<open>\<open>path.parse(p).ext\<close> and \<open>path.parse(p).name\<close>.\<close>

definition parse_ext :: "string \<Rightarrow> string" where
  "parse_ext p = extname p"

definition parse_name :: "string \<Rightarrow> string" where
  "parse_name p = (let b = basename p in take (length b - length (extname p)) b)"

subsection \<open>The asset directory\<close>

text \<open>The errors the actions meet: an I/O fault on the named entry, a missing entry, a
  path that is a directory, and the \<open>TypeError\<close> of reading a member of \<open>undefined\<close> or \<open>null\<close>
  or of giving \<open>path.basename\<close> no string.\<close>

datatype io_error = EIO string | ENOENT string | EISDIR string | TypeError

definition readdir :: "world \<Rightarrow> string list" where
  "readdir w = remdups (map fst (entries w))"

text \<open>
  \<open>path.join(appPath, 'assets/images', name)\<close> is the asset directory itself for the names
  \<open>''\<close> and \<open>.\<close>, and its parent for \<open>..\<close>: such a path exists and cannot be unlinked.
\<close>

definition directory_name :: "string \<Rightarrow> bool" where
  "directory_name name = (name = [] \<or> name = ''.'' \<or> name = ''..'')"

definition existsSync :: "world \<Rightarrow> string \<Rightarrow> bool" where
  "existsSync w name = (directory_name name \<or> name \<in> fst ` set (entries w))"

definition log :: "effect \<Rightarrow> world \<Rightarrow> world" where
  "log e w = w\<lparr>trace := trace w @ [e]\<rparr>"

text \<open>Writing a file replaces the entry of that name; a write can fail. The names the
  controller writes begin with the sixteen digits of \<open>uniqueId\<close>, so none of them is the path
  of a directory.\<close>

definition writeFile :: "env \<Rightarrow> string \<Rightarrow> buffer \<Rightarrow> world \<Rightarrow> io_error option \<times> world" where
  "writeFile ev name bytes w =
     (let w' = log (FsWrite name) w
      in if write_fault ev name then (Some (EIO name), w')
         else (None, w'\<lparr>entries := (name, bytes) # filter (\<lambda>e. fst e \<noteq> name) (entries w')\<rparr>))"

text \<open>\<open>unlinkAsync\<close> rejects when the path is a directory, when the file is missing, or
  when the unlink faults.\<close>

definition unlinkAsync :: "env \<Rightarrow> string \<Rightarrow> world \<Rightarrow> io_error option \<times> world" where
  "unlinkAsync ev name w =
     (let w' = log (FsUnlink name) w
      in if directory_name name then (Some (EISDIR name), w')
         else if \<not> existsSync w name then (Some (ENOENT name), w')
         else if unlink_fault ev name then (Some (EIO name), w')
         else (None, w'\<lparr>entries := filter (\<lambda>e. fst e \<noteq> name) (entries w')\<rparr>))"

subsection \<open>upload\<close>

definition maxBytes :: nat where
  "maxBytes = 1073741824"

datatype skipper_error = E_EXCEEDS_UPLOAD_LIMIT

text \<open>
  \<open>req.file('image').upload({ maxBytes: ... }, cb)\<close>. The receiver of skipper counts the
  bytes it has written for the files of the field and calls back with the error
  \<open>E_EXCEEDS_UPLOAD_LIMIT\<close> as soon as that count is \<open>maxBytes\<close> or more
  (\<open>totalBytesWritten >= options.maxBytes\<close>); otherwise it calls back with the received
  files.
\<close>

definition skipper_upload :: "nat \<Rightarrow> uploaded_file list \<Rightarrow> skipper_error + uploaded_file list" where
  "skipper_upload limit files =
     (if limit \<le> sum_list (map (\<lambda>f. length (fd f)) files) then Inl E_EXCEEDS_UPLOAD_LIMIT
      else Inr files)"

datatype error_code = E_NO_FILE | E_INVALID_ID

text \<open>The bodies handed to \<open>res.serverError\<close>: the error caught by an outer \<open>catch\<close>
  (a skipper error, a filesystem error, an error thrown by sharp while it encodes a file,
  an error raised in the loop over the dependent records), or one of the three fixed
  messages (lines 188, 240 and 306).\<close>

datatype server_error =
    UploadRejected skipper_error
  | StorageFailed io_error
  | EncoderFailed
  | CreateDocumentReferenceFailed
  | FetchDocumentReferenceFailed
  | FileDeletionFailed
  | DeleteFailed io_error
  | PurgeFailed io_error

record upload_result =
  r_filename :: string
  r_size :: nat
  r_path :: string
  r_path_thumbnail :: "string option"
  r_timestamp :: nat
  r_url :: string
  r_delete :: string
  r_fhir :: json_object

datatype upload_response =
    UBadRequest error_code
  | UServerError server_error
  | UOk upload_result

definition allow_list :: "string list" where
  "allow_list = [''jpeg'', ''png'', ''gif'', ''webp'']"

text \<open>Lines 63-73: the pair \<open>(imageType, isImage)\<close> after the inner \<open>try\<close>/\<open>catch\<close>.\<close>

definition classify :: "env \<Rightarrow> buffer \<Rightarrow> string option \<times> bool" where
  "classify ev fileBuffer =
     (case sharp_metadata ev fileBuffer of
        None \<Rightarrow> (None, False)
      | Some m \<Rightarrow> (Some (format m), format m \<in> set allow_list))"

text \<open>Lines 82-89: \<open>filenameFull\<close>.\<close>

definition filenameFull_of ::
  "env \<Rightarrow> string \<Rightarrow> bool \<Rightarrow> string option \<Rightarrow> uploaded_file \<Rightarrow> string" where
  "filenameFull_of ev uniqueId isImage imageType file =
     (if isImage then uniqueId @ ''.'' @ tpl_null imageType
      else uniqueId @ toLowerCase ev (extname (or_else (filename file) [])))"

text \<open>Lines 94-101: \<open>thumbnailFilename\<close>, \<open>null\<close> unless the payload is an image.\<close>

definition thumbnailFilename_of :: "bool \<Rightarrow> string \<Rightarrow> string option" where
  "thumbnailFilename_of isImage filenameFull =
     (if isImage then Some (parse_name filenameFull @ ''_thumb'' @ parse_ext filenameFull)
      else None)"

text \<open>Lines 105-116: the files written; the first failure is thrown to the outer \<open>catch\<close>.
  \<open>thumbnailPath\<close> is \<open>null\<close> unless the payload is an image.\<close>

definition store_files ::
  "env \<Rightarrow> bool \<Rightarrow> string \<Rightarrow> string option \<Rightarrow> buffer \<Rightarrow> world \<Rightarrow> server_error option \<times> world" where
  "store_files ev isImage imagePath thumbnailPath fileBuffer w =
     (if isImage then
        (case sharp_toFile ev fileBuffer of
           None \<Rightarrow> (Some EncoderFailed, w)
         | Some full \<Rightarrow>
             (case writeFile ev imagePath full w of
                (Some e, w1) \<Rightarrow> (Some (StorageFailed e), w1)
              | (None, w1) \<Rightarrow>
                  (case (sharp_resize_toFile ev fileBuffer, thumbnailPath) of
                     (Some thumb, Some tp) \<Rightarrow>
                       (case writeFile ev tp thumb w1 of
                          (Some e, w2) \<Rightarrow> (Some (StorageFailed e), w2)
                        | (None, w2) \<Rightarrow> (None, w2))
                   | _ \<Rightarrow> (Some EncoderFailed, w1))))
      else
        (case writeFile ev imagePath fileBuffer w of
           (Some e, w1) \<Rightarrow> (Some (StorageFailed e), w1)
         | (None, w1) \<Rightarrow> (None, w1)))"

text \<open>Lines 119-178: the DocumentReference that is posted.\<close>

definition attachments_of ::
  "env \<Rightarrow> bool \<Rightarrow> string option \<Rightarrow> string \<Rightarrow> string option \<Rightarrow> nat \<Rightarrow> uploaded_file
     \<Rightarrow> attachment list" where
  "attachments_of ev isImage imageType imageUrl thumbnailUrl fileSizeBytes file =
     (if isImage then
        [\<lparr>contentType = ''image/'' @ tpl_null imageType, url = Some imageUrl,
          att_size = Some fileSizeBytes, title = ''full-image'', creation = now_iso ev\<rparr>,
         \<lparr>contentType = ''image/'' @ tpl_null imageType, url = thumbnailUrl,
          att_size = None, title = ''thumbnail'', creation = now_iso ev\<rparr>]
      else
        [\<lparr>contentType = or_else (ftype file) ''application/octet-stream'', url = Some imageUrl,
          att_size = Some fileSizeBytes, title = ''file'', creation = now_iso ev\<rparr>])"

definition documentReference_of :: "upload_request \<Rightarrow> attachment list \<Rightarrow> document_reference" where
  "documentReference_of req atts =
     \<lparr>resourceType = ''DocumentReference'',
      profile = [''https://twcore.mohw.gov.tw/ig/twcore/StructureDefinition/DocumentReference-twcore''],
      status = ''current'',
      description = ''hah'',
      docStatus = ''final'',
      type_coding = [(''http://loinc.org'', ''72170-4'', ''Attachment'')],
      content = atts,
      subject = (if truthy (patientId req) then Some (''Patient/'' @ tpl_undefined (patientId req))
                 else None),
      author = (if truthy (practitionerId req)
                then Some [''Practitioner/'' @ tpl_undefined (practitionerId req)] else None)\<rparr>"

text \<open>Lines 75-201, entered once a non-empty \<open>fileBuffer\<close> has been read.\<close>

definition upload_file :: "env \<Rightarrow> upload_request \<Rightarrow> uploaded_file \<Rightarrow> world \<Rightarrow> upload_response \<times> world" where
  "upload_file ev req file w =
     (let fileBuffer = fd file;
          fileSizeBytes = length fileBuffer;
          w0 = log SharpMetadata w;
          (imageType, isImage) = classify ev fileBuffer;
          uniqueId = randomHex ev;
          filenameFull = filenameFull_of ev uniqueId isImage imageType file;
          imageUrl = apiBaseUrl ev @ ''/images/'' @ filenameFull;
          thumbnailFilename = thumbnailFilename_of isImage filenameFull;
          thumbnailUrl = (if isImage then Some (apiBaseUrl ev @ ''/images/'' @ tpl_null thumbnailFilename)
                          else None)
      in case store_files ev isImage filenameFull thumbnailFilename fileBuffer w0 of
           (Some e, w1) \<Rightarrow> (UServerError e, log (LogError ''File upload error:'') w1)
         | (None, w1) \<Rightarrow>
             (let documentReference =
                    documentReference_of req
                      (attachments_of ev isImage imageType imageUrl thumbnailUrl fileSizeBytes file);
                  w2 = log (RegPost documentReference) w1
              in case post_reply ev documentReference of
                   Rejected r \<Rightarrow>
                     (UServerError CreateDocumentReferenceFailed,
                      log (LogError ''FHIR server error:'') w2)
                 | Resolved st data \<Rightarrow>
                     (let fhirResponse = (if st = 201 then data else [])
                      in (UOk \<lparr>r_filename = filenameFull,
                               r_size = fileSizeBytes,
                               r_path = ''/images/'' @ filenameFull,
                               r_path_thumbnail =
                                 (if isImage then Some (''/images/'' @ tpl_null thumbnailFilename)
                                  else None),
                               r_timestamp = now_ms ev,
                               r_url = imageUrl,
                               r_delete = apiBaseUrl ev @ ''/delete/''
                                            @ tpl_undefined (map_of fhirResponse ''id''),
                               r_fhir = fhirResponse\<rparr>, w2))))"

text \<open>Lines 25-58 and the outer \<open>catch\<close> of lines 203-206.\<close>

definition upload :: "env \<Rightarrow> upload_request \<Rightarrow> world \<Rightarrow> upload_response \<times> world" where
  "upload ev req w =
     (case skipper_upload maxBytes (image_field req) of
        Inl err \<Rightarrow> (UServerError (UploadRejected err), log (LogError ''File upload error:'') w)
      | Inr uploadedFiles \<Rightarrow>
          (case uploadedFiles of
             [] \<Rightarrow> (UBadRequest E_NO_FILE, w)
           | file # rest \<Rightarrow>
               if fd file = [] then (UBadRequest E_NO_FILE, w)
               else upload_file ev req file w))"

subsection \<open>delete\<close>

datatype delete_response =
    DBadRequest error_code
  | DNotFound
  | DServerError server_error
  | DOk

text \<open>Lines 243-253: the resources the search returns; none when it fails. A failure
  inside the \<open>try\<close> is logged and the delete goes on.\<close>

definition find_dependents ::
  "env \<Rightarrow> string \<Rightarrow> world \<Rightarrow> clinical_impression option list \<times> world" where
  "find_dependents ev id' w =
     (let w' = log (RegSearch id') w
      in case search_reply ev id' of
           Resolved st (Entry entry) \<Rightarrow> (entry, w')
         | Resolved st NoEntry \<Rightarrow> ([], w')
         | Resolved st BadEntry \<Rightarrow> ([], log (LogError ''Failed to fetch ClinicalImpressions:'') w')
         | Rejected r \<Rightarrow> ([], log (LogError ''Failed to fetch ClinicalImpressions:'') w'))"

text \<open>Lines 259-261: the filter on \<open>supportingInfo\<close>. The callback reads \<open>info.reference\<close>, which
  raises on a \<open>null\<close> element.\<close>

definition keeps :: "string \<Rightarrow> reference_entry option \<Rightarrow> bool" where
  "keeps id' info =
     (case info of
        None \<Rightarrow> True
      | Some i \<Rightarrow> reference i \<noteq> Some (''DocumentReference/'' @ id'))"

definition filter_supportingInfo ::
  "string \<Rightarrow> reference_entry option list \<Rightarrow> io_error + reference_entry option list" where
  "filter_supportingInfo id' infos =
     (if None \<in> set infos then Inl TypeError else Inr (filter (keeps id') infos))"

text \<open>
  Lines 256-284: the loop over the resources. It is not inside a \<open>try\<close>: reading
  \<open>supportingInfo\<close> of a missing resource raises, and so does the filter on a \<open>null\<close>
  element; the loop ends there. A \<open>PUT\<close> that resolves replaces the registry's record of
  that id by the body sent; one that rejects leaves it as it was.
\<close>

fun update_dependents ::
  "env \<Rightarrow> string \<Rightarrow> clinical_impression option list \<Rightarrow> world \<Rightarrow> io_error option \<times> world" where
  "update_dependents ev id' [] w = (None, w)"
| "update_dependents ev id' (None # rest) w = (Some TypeError, w)"
| "update_dependents ev id' (Some clinicalImpression # rest) w =
     (case supportingInfo clinicalImpression of
        None \<Rightarrow> update_dependents ev id' rest w
      | Some infos \<Rightarrow>
          (case filter_supportingInfo id' infos of
             Inl e \<Rightarrow> (Some e, w)
           | Inr updatedSupportingInfo \<Rightarrow>
               if length updatedSupportingInfo \<noteq> length infos then
                 (let body = clinicalImpression\<lparr>supportingInfo := Some updatedSupportingInfo\<rparr>;
                      w' = log (RegPut (ci_id body) body) w
                  in case put_reply ev body of
                       Resolved st u \<Rightarrow>
                         update_dependents ev id' rest
                           (log (LogInfo ''Updated ClinicalImpression'')
                              (w'\<lparr>impressions := (impressions w')(ci_id body \<mapsto> body)\<rparr>))
                     | Rejected r \<Rightarrow>
                         update_dependents ev id' rest
                           (log (LogError ''Failed to update ClinicalImpression'') w'))
               else update_dependents ev id' rest w))"

text \<open>Lines 286-292: the \<open>DELETE\<close> on the registry; a rejection is logged and swallowed.\<close>

definition delete_remote :: "env \<Rightarrow> string \<Rightarrow> world \<Rightarrow> world" where
  "delete_remote ev id' w =
     (let w' = log (RegDelete id') w
      in case delete_reply ev id' of
           Resolved st u \<Rightarrow> w'
         | Rejected r \<Rightarrow> log (LogError ''Failed to delete DocumentReference:'') w')"

text \<open>Lines 296-303: the loop over the urls of \<open>docRef.content\<close>. The first error leaves the
  loop.\<close>

fun unlink_urls :: "env \<Rightarrow> string option list \<Rightarrow> world \<Rightarrow> io_error option \<times> world" where
  "unlink_urls ev [] w = (None, w)"
| "unlink_urls ev (None # rest) w = (Some TypeError, w)"
| "unlink_urls ev (Some fileUrl # rest) w =
     (let filename = basename fileUrl
      in if existsSync w filename then
           (case unlinkAsync ev filename w of
              (Some e, w') \<Rightarrow> (Some e, w')
            | (None, w') \<Rightarrow> unlink_urls ev rest w')
         else unlink_urls ev rest w)"

text \<open>Lines 294-307: the local clean-up inside its \<open>try\<close>.\<close>

definition delete_local_files :: "env \<Rightarrow> fetched_content \<Rightarrow> world \<Rightarrow> io_error option \<times> world" where
  "delete_local_files ev content' w =
     (case content' of
        None \<Rightarrow> (Some TypeError, w)
      | Some urls \<Rightarrow> unlink_urls ev urls w)"

text \<open>
  Lines 215-318. \<open>id'\<close> is the source's \<open>id\<close>; \<open>!id\<close> holds for a missing and for an empty id.
  An error raised by the loop over the resources reaches the outer \<open>catch\<close> of lines
  314-317: the registry delete and the local clean-up are skipped.
\<close>

definition delete :: "env \<Rightarrow> string option \<Rightarrow> world \<Rightarrow> delete_response \<times> world" where
  "delete ev id_param w =
     (case id_param of
        None \<Rightarrow> (DBadRequest E_INVALID_ID, w)
      | Some id' \<Rightarrow>
          if id' = [] then (DBadRequest E_INVALID_ID, w)
          else
            (let w1 = log (RegGetDoc id') w
             in case get_reply ev id' of
                  Rejected r \<Rightarrow>
                    (let w2 = log (LogError ''Failed to fetch DocumentReference:'') w1
                     in if r = Some 404 then (DNotFound, w2)
                        else (DServerError FetchDocumentReferenceFailed, w2))
                | Resolved st docRef \<Rightarrow>
                    (let (clinicalImpressions, w2) = find_dependents ev id' w1
                     in case update_dependents ev id' clinicalImpressions w2 of
                          (Some e, w3) \<Rightarrow>
                            (DServerError (DeleteFailed e),
                             log (LogError ''Delete operation failed:'') w3)
                        | (None, w3) \<Rightarrow>
                            (let w4 = delete_remote ev id' w3
                             in case delete_local_files ev docRef w4 of
                                  (Some e, w5) \<Rightarrow>
                                    (DServerError FileDeletionFailed,
                                     log (LogError ''File deletion error:'') w5)
                                | (None, w5) \<Rightarrow> (DOk, w5)))))"

subsection \<open>purge\<close>

datatype purge_response = PServerError server_error | POk

text \<open>Lines 331-335: the loop over the listing.\<close>

fun purge_files :: "env \<Rightarrow> string list \<Rightarrow> world \<Rightarrow> io_error option \<times> world" where
  "purge_files ev [] w = (None, w)"
| "purge_files ev (file # rest) w =
     (if file \<noteq> ''.gitkeep'' then
        (case unlinkAsync ev file w of
           (Some e, w') \<Rightarrow> (Some e, w')
         | (None, w') \<Rightarrow> purge_files ev rest w')
      else purge_files ev rest w)"

text \<open>Lines 326-345.\<close>

definition purge :: "env \<Rightarrow> world \<Rightarrow> purge_response \<times> world" where
  "purge ev w =
     (let w0 = log FsReaddir w
      in if readdir_fault ev then
           (PServerError (PurgeFailed (EIO ''assets/images'')), log (LogError ''Files purge error:'') w0)
         else
           (case purge_files ev (readdir w0) w0 of
              (Some e, w') \<Rightarrow> (PServerError (PurgeFailed e), log (LogError ''Files purge error:'') w')
            | (None, w') \<Rightarrow> (POk, w')))"

subsection \<open>Notions used to state the properties\<close>






text \<open>An unlink of the name fails whatever the directory holds; the error it fails with.\<close>

definition unlink_fails :: "env \<Rightarrow> string \<Rightarrow> bool" where
  "unlink_fails ev name = (directory_name name \<or> unlink_fault ev name)"

definition unlink_error :: "string \<Rightarrow> io_error" where
  "unlink_error name = (if directory_name name then EISDIR name else EIO name)"

text \<open>The trace that a run has added to the one it started with.\<close>

definition added :: "world \<Rightarrow> world \<Rightarrow> effect list" where
  "added w w' = drop (length (trace w)) (trace w')"



subsection \<open>Concrete runs\<close>

text \<open>An environment in which nothing fails: the decoder rejects the payload (it is not an
  image), the registry creates the record with status 201 and knows no DocumentReference.\<close>

definition env0 :: env where
  "env0 = \<lparr>apiBaseUrl = ''https://imagedb.fhir.tw'',
           fhirServerUrl = ''https://hapi.fhir.tw/fhir'',
           sharp_metadata = (\<lambda>b. None),
           sharp_toFile = (\<lambda>b. Some b),
           sharp_resize_toFile = (\<lambda>b. Some (take 4 b)),
           randomHex = ''0123456789abcdef'',
           unicode_toLowerCase = (\<lambda>s. s),
           now_iso = ''2024-01-01T00:00:00.000Z'',
           now_ms = 1704067200000,
           post_reply = (\<lambda>d. Resolved 201 [(''resourceType'', ''DocumentReference''), (''id'', ''42'')]),
           get_reply = (\<lambda>i. Rejected (Some 404)),
           search_reply = (\<lambda>i. Resolved 200 NoEntry),
           put_reply = (\<lambda>c. Resolved 200 ()),
           delete_reply = (\<lambda>i. Resolved 204 ()),
           write_fault = (\<lambda>n. False),
           unlink_fault = (\<lambda>n. False),
           readdir_fault = False\<rparr>"

definition env_png :: env where
  "env_png = env0\<lparr>sharp_metadata := (\<lambda>b. Some \<lparr>format = ''png''\<rparr>)\<rparr>"

definition env_status200 :: env where
  "env_status200 = env0\<lparr>post_reply := (\<lambda>d. Resolved 200 [(''id'', ''42'')])\<rparr>"


definition world0 :: world where
  "world0 = \<lparr>entries = [(''.gitkeep'', [])], impressions = Map.empty, trace = []\<rparr>"

definition notes_txt :: uploaded_file where
  "notes_txt = \<lparr>fd = [110, 111, 116, 101], filename = Some ''Notes.TXT'', ftype = None\<rparr>"


definition empty_file :: uploaded_file where
  "empty_file = \<lparr>fd = [], filename = Some ''empty.png'', ftype = Some ''image/png''\<rparr>"

definition huge_file :: uploaded_file where
  "huge_file = \<lparr>fd = replicate 1073741825 0, filename = Some ''huge.bin'', ftype = None\<rparr>"

definition limit_file :: uploaded_file where
  "limit_file = \<lparr>fd = replicate 1073741824 0, filename = Some ''limit.bin'', ftype = None\<rparr>"

definition req0 :: upload_request where
  "req0 = \<lparr>patientId = None, practitionerId = Some ''p1'', image_field = [notes_txt]\<rparr>"


definition r_notes :: upload_result where
  "r_notes = \<lparr>r_filename = ''0123456789abcdef.txt'', r_size = 4,
              r_path = ''/images/0123456789abcdef.txt'', r_path_thumbnail = None,
              r_timestamp = 1704067200000,
              r_url = ''https://imagedb.fhir.tw/images/0123456789abcdef.txt'',
              r_delete = ''https://imagedb.fhir.tw/delete/42'',
              r_fhir = [(''resourceType'', ''DocumentReference''), (''id'', ''42'')]\<rparr>"

definition r_png :: upload_result where
  "r_png = \<lparr>r_filename = ''0123456789abcdef.png'', r_size = 4,
            r_path = ''/images/0123456789abcdef.png'',
            r_path_thumbnail = Some ''/images/0123456789abcdef_thumb.png'',
            r_timestamp = 1704067200000,
            r_url = ''https://imagedb.fhir.tw/images/0123456789abcdef.png'',
            r_delete = ''https://imagedb.fhir.tw/delete/42'',
            r_fhir = [(''resourceType'', ''DocumentReference''), (''id'', ''42'')]\<rparr>"

text \<open>A registry that holds the DocumentReference \<open>d1\<close> of an image and one
  ClinicalImpression that references it, and a directory that holds the two files.\<close>

definition content_d1 :: fetched_content where
  "content_d1 = Some [Some ''https://imagedb.fhir.tw/images/a.png'',
                      Some ''https://imagedb.fhir.tw/images/a_thumb.png'']"

definition ci1 :: clinical_impression where
  "ci1 = \<lparr>ci_id = ''ci1'',
          supportingInfo = Some [Some \<lparr>reference = Some ''DocumentReference/d1''\<rparr>,
                                 Some \<lparr>reference = Some ''Observation/o1''\<rparr>]\<rparr>"


definition world_d1 :: world where
  "world_d1 = \<lparr>entries = [(''.gitkeep'', []), (''a.png'', [1]), (''a_thumb.png'', [2])],
               impressions = [''ci1'' \<mapsto> ci1],
               trace = []\<rparr>"

definition env_d1 :: env where
  "env_d1 = env0\<lparr>get_reply := (\<lambda>i. if i = ''d1'' then Resolved 200 content_d1 else Rejected (Some 404)),
                 search_reply := (\<lambda>i. Resolved 200 (Entry [Some ci1]))\<rparr>"



definition env_unlink_fault :: env where
  "env_unlink_fault = env_d1\<lparr>unlink_fault := (\<lambda>n. n = ''a.png'')\<rparr>"



definition env_readdir_fault :: env where
  "env_readdir_fault = env0\<lparr>readdir_fault := True\<rparr>"

section \<open>Properties of upload\<close>

subsection \<open>Auxiliary facts\<close>

lemmas upload_defs = upload_def upload_file_def skipper_upload_def maxBytes_def classify_def
  filenameFull_of_def thumbnailFilename_of_def store_files_def attachments_of_def
  documentReference_of_def writeFile_def log_def or_else_def truthy_def tpl_undefined_def
  tpl_null_def toLowerCase_def is_ascii_def lower_char_def extname_def basename_def parse_ext_def
  parse_name_def allow_list_def

lemma log_fields [simp]:
  "entries (log e w) = entries w" "impressions (log e w) = impressions w"
  "trace (log e w) = trace w @ [e]"
  by (simp_all add: log_def)

lemma existsSync_log [simp]: "existsSync (log e w) n = existsSync w n"
  by (simp add: existsSync_def)

lemma added_log [simp]: "added w (log e w') = added w w' @ [e]" if "length (trace w) \<le> length (trace w')"
  using that by (simp add: added_def)





lemma classify_image:
  assumes "classify ev b = (imageType, True)"
  shows "\<exists>fmt \<in> {''jpeg'', ''png'', ''gif'', ''webp''}. imageType = Some fmt"
  using assms by (auto simp: classify_def allow_list_def split: option.splits)

text \<open>The receive step hands over the files of the request or fails.\<close>

lemma skipper_upload_Inr:
  "skipper_upload limit files = Inr fs \<Longrightarrow>
   fs = files \<and> sum_list (map (\<lambda>f. length (fd f)) files) < limit"
  by (auto simp: skipper_upload_def split: if_splits)

text \<open>A success response is only sent for the first received file, which is not empty.\<close>

lemma upload_ok_file:
  assumes "upload ev req w = (UOk r, w')"
  shows "\<exists>file rest. image_field req = file # rest \<and> fd file \<noteq> []
           \<and> upload_file ev req file w = (UOk r, w')"
  using assms
  by (auto simp: upload_def skipper_upload_def split: sum.splits list.splits if_splits)


lemma writeFile_stored:
  "writeFile ev name bytes w = (None, w') \<Longrightarrow> map_of (entries w') name = Some bytes"
  by (auto simp: writeFile_def log_def Let_def split: if_splits)

lemma writeFile_exists:
  "writeFile ev name bytes w = (None, w') \<Longrightarrow> name \<in> fst ` set (entries w')"
  by (auto simp: writeFile_def log_def Let_def split: if_splits)

lemma writeFile_keeps:
  "writeFile ev name bytes w = (None, w') \<Longrightarrow> n \<in> fst ` set (entries w) \<Longrightarrow>
   n \<in> fst ` set (entries w')"
  by (auto simp: writeFile_def log_def Let_def image_iff split: if_splits)

lemma store_files_exists:
  assumes "store_files ev isImage imagePath thumbnailPath fileBuffer w = (None, w')"
  shows "imagePath \<in> fst ` set (entries w')"
  using assms
  by (auto simp: store_files_def split: if_splits option.splits prod.splits
      intro: writeFile_exists writeFile_keeps)

text \<open>What a success response tells about the run: the name in the response, the file
  under that name, and the DocumentReference posted last.\<close>

lemma upload_file_ok:
  assumes "upload_file ev req file w = (UOk r, w')"
  shows "r_filename r
           = filenameFull_of ev (randomHex ev) (snd (classify ev (fd file)))
               (fst (classify ev (fd file))) file
         \<and> r_filename r \<in> fst ` set (entries w')
         \<and> (\<exists>doc st data. last (trace w') = RegPost doc \<and> post_reply ev doc = Resolved st data
               \<and> content doc
                   = attachments_of ev (snd (classify ev (fd file))) (fst (classify ev (fd file)))
                       (r_url r)
                       (if snd (classify ev (fd file))
                        then Some (apiBaseUrl ev @ ''/images/''
                                    @ tpl_null (thumbnailFilename_of True (r_filename r)))
                        else None)
                       (length (fd file)) file)"
  using assms
  apply (cases "classify ev (fd file)")
  apply (auto simp: upload_file_def Let_def log_def documentReference_of_def
      split: prod.splits option.splits axios.splits dest: store_files_exists)
  done


lemma upload_env0_req0: "fst (upload env0 req0 world0) = UOk r_notes"
  by (simp add: upload_defs env0_def req0_def world0_def notes_txt_def r_notes_def Let_def)

lemma upload_env_png_req0: "fst (upload env_png req0 world0) = UOk r_png"
  by (simp add: upload_defs env_png_def env0_def req0_def world0_def notes_txt_def r_png_def Let_def)

subsection \<open>Registry answers that are not a creation success\<close>

text \<open>
  Claim C1. An upload whose creation call on the registry does not come back with the
  creation-success status is reported to the caller as failed, and no success response is
  sent. The controller does not do this when the call resolves with another 2xx status:
  with the registry answering 200, the run below sends the success response, with an empty
  \<open>fhir\<close> member and a delete link that ends in \<open>undefined\<close>.
\<close>

theorem upload_status_200_reported_ok:
  "fst (upload env_status200 req0 world0)
     = UOk \<lparr>r_filename = ''0123456789abcdef.txt'', r_size = 4,
            r_path = ''/images/0123456789abcdef.txt'', r_path_thumbnail = None,
            r_timestamp = 1704067200000,
            r_url = ''https://imagedb.fhir.tw/images/0123456789abcdef.txt'',
            r_delete = ''https://imagedb.fhir.tw/delete/undefined'',
            r_fhir = []\<rparr>"
  by (simp add: upload_defs env_status200_def env0_def req0_def world0_def notes_txt_def Let_def)

subsection \<open>Empty payloads\<close>

text \<open>
  Claim C4. An upload whose payload is empty (no file was received, or the first file
  has zero bytes) is answered with \<open>badRequest\<close> and the code \<open>E_NO_FILE\<close>, and leaves the
  world as it was: nothing is written to the asset directory and the registry is not
  called.
\<close>

theorem upload_empty_payload:
  assumes "skipper_upload maxBytes (image_field req) = Inr uploadedFiles"
    and "uploadedFiles = [] \<or> (\<exists>file rest. uploadedFiles = file # rest \<and> fd file = [])"
  shows "upload ev req w = (UBadRequest E_NO_FILE, w)"
  using assms by (cases uploadedFiles) (auto simp: upload_def)

theorem upload_empty_payload_witness:
  "skipper_upload maxBytes (image_field (req0\<lparr>image_field := [empty_file]\<rparr>)) = Inr [empty_file]
   \<and> fd empty_file = []
   \<and> upload env0 (req0\<lparr>image_field := [empty_file]\<rparr>) world0 = (UBadRequest E_NO_FILE, world0)
   \<and> skipper_upload maxBytes (image_field (req0\<lparr>image_field := []\<rparr>)) = Inr []
   \<and> upload env0 (req0\<lparr>image_field := []\<rparr>) world0 = (UBadRequest E_NO_FILE, world0)"
proof -
  have a: "skipper_upload maxBytes (image_field (req0\<lparr>image_field := [empty_file]\<rparr>)) = Inr [empty_file]"
    by (simp add: skipper_upload_def maxBytes_def empty_file_def)
  have e: "fd empty_file = []"
    by (simp add: empty_file_def)
  then have b: "[empty_file] = [] \<or> (\<exists>file rest. [empty_file] = file # rest \<and> fd file = [])"
    by simp
  have c: "skipper_upload maxBytes (image_field (req0\<lparr>image_field := []\<rparr>)) = Inr []"
    by (simp add: skipper_upload_def maxBytes_def)
  have d: "([] :: uploaded_file list) = [] \<or> (\<exists>file rest. [] = file # rest \<and> fd file = [])"
    by simp
  show ?thesis
    using a e c upload_empty_payload [OF a b, of env0 world0]
      upload_empty_payload [OF c d, of env0 world0]
    by simp
qed


subsection \<open>Classification\<close>



subsection \<open>The attachments of the posted record\<close>

text \<open>
  Claim C7. For every successful upload, the DocumentReference submitted to the registry
  (the record of the last call in the trace, which the registry answered) holds, when the
  payload was classified as an image, exactly two attachments, titled \<open>full-image\<close> and
  \<open>thumbnail\<close> in that order, both with the content type \<open>image/\<close> followed by the
  detected format; and otherwise exactly one attachment, titled \<open>file\<close>, whose content type
  is the MIME type that came with the file, or \<open>application/octet-stream\<close> when none (or
  an empty one) came.
\<close>

theorem upload_attachments:
  assumes "upload ev req w = (UOk r, w')"
  shows "\<exists>file rest doc st data.
           image_field req = file # rest \<and> last (trace w') = RegPost doc
           \<and> post_reply ev doc = Resolved st data
           \<and> (if snd (classify ev (fd file))
                then \<exists>fmt \<in> {''jpeg'', ''png'', ''gif'', ''webp''}.
                       fst (classify ev (fd file)) = Some fmt
                       \<and> map (\<lambda>a. (title a, contentType a)) (content doc)
                           = [(''full-image'', ''image/'' @ fmt), (''thumbnail'', ''image/'' @ fmt)]
                else map (\<lambda>a. (title a, contentType a)) (content doc)
                       = [(''file'',
                           case ftype file of
                             None \<Rightarrow> ''application/octet-stream''
                           | Some t \<Rightarrow> if t = [] then ''application/octet-stream'' else t)])"
proof -
  from upload_ok_file [OF assms] obtain uf rest where
    f: "image_field req = uf # rest" and u: "upload_file ev req uf w = (UOk r, w')"
    by blast
  from upload_file_ok [OF u] obtain doc st data where
    d: "last (trace w') = RegPost doc" "post_reply ev doc = Resolved st data"
    and c: "content doc
              = attachments_of ev (snd (classify ev (fd uf))) (fst (classify ev (fd uf)))
                  (r_url r)
                  (if snd (classify ev (fd uf))
                   then Some (apiBaseUrl ev @ ''/images/''
                               @ tpl_null (thumbnailFilename_of True (r_filename r)))
                   else None)
                  (length (fd uf)) uf"
    by blast
  show ?thesis
  proof (cases "snd (classify ev (fd uf))")
    case True
    then have "classify ev (fd uf) = (fst (classify ev (fd uf)), True)"
      by (simp add: prod_eq_iff)
    from classify_image [OF this] obtain fmt where
      m: "fmt \<in> {''jpeg'', ''png'', ''gif'', ''webp''}" "fst (classify ev (fd uf)) = Some fmt"
      by blast
    have "map (\<lambda>a. (title a, contentType a)) (content doc)
            = [(''full-image'', ''image/'' @ fmt), (''thumbnail'', ''image/'' @ fmt)]"
      using True m(2) by (simp add: c attachments_of_def tpl_null_def)
    with True m f d show ?thesis by auto
  next
    case False
    have "map (\<lambda>a. (title a, contentType a)) (content doc)
            = [(''file'',
                case ftype uf of
                  None \<Rightarrow> ''application/octet-stream''
                | Some t \<Rightarrow> if t = [] then ''application/octet-stream'' else t)]"
      using False by (simp add: c attachments_of_def or_else_def)
    with False f d show ?thesis by auto
  qed
qed

theorem upload_attachments_witness:
  "upload env_png req0 world0 = (UOk r_png, snd (upload env_png req0 world0))
   \<and> (\<exists>doc. last (trace (snd (upload env_png req0 world0))) = RegPost doc
          \<and> map (\<lambda>a. (title a, contentType a)) (content doc)
              = [(''full-image'', ''image/png''), (''thumbnail'', ''image/png'')])"
proof -
  have h: "upload env_png req0 world0 = (UOk r_png, snd (upload env_png req0 world0))"
    using upload_env_png_req0 by (simp add: prod_eq_iff)
  have c: "classify env_png (fd notes_txt) = (Some ''png'', True)"
    by (simp add: classify_def env_png_def allow_list_def)
  from upload_attachments [OF h] c
  have "\<exists>doc. last (trace (snd (upload env_png req0 world0))) = RegPost doc
          \<and> map (\<lambda>a. (title a, contentType a)) (content doc)
              = [(''full-image'', ''image/png''), (''thumbnail'', ''image/png'')]"
    by (auto simp: req0_def)
  with h show ?thesis by simp
qed

subsection \<open>The stored filename\<close>






subsection \<open>The size limit of the receive step\<close>

lemma upload_file_not_rejected_by_limit:
  "fst (upload_file ev req file w) \<noteq> UServerError (UploadRejected e)"
  apply (cases "classify ev (fd file)")
  apply (auto simp: upload_file_def Let_def store_files_def writeFile_def
      split: option.splits axios.splits prod.splits if_splits)
  done

text \<open>
  Claim C10, as amended. The receive step is given the limit of 1073741824 bytes and fails
  as soon as the bytes received for the field reach it. So an upload is rejected for its
  size exactly when it brings 1073741824 bytes or more: the largest payload that passes
  has 1073741823 bytes. A rejected upload is answered with \<open>serverError\<close>, and the only
  trace of the run is the log line of the outer \<open>catch\<close>: the payload was not classified,
  nothing was written to the asset directory and the registry was not called. This holds
  in particular when the first file alone has 1073741824 bytes or more.
\<close>

theorem upload_size_limit:
  "(fst (upload ev req w) = UServerError (UploadRejected E_EXCEEDS_UPLOAD_LIMIT)
      \<longleftrightarrow> 1073741824 \<le> sum_list (map (\<lambda>f. length (fd f)) (image_field req)))
   \<and> (1073741824 \<le> sum_list (map (\<lambda>f. length (fd f)) (image_field req)) \<longrightarrow>
        snd (upload ev req w) = log (LogError ''File upload error:'') w
        \<and> entries (snd (upload ev req w)) = entries w
        \<and> impressions (snd (upload ev req w)) = impressions w
        \<and> added w (snd (upload ev req w)) = [LogError ''File upload error:''])
   \<and> (\<forall>file rest. image_field req = file # rest \<and> 1073741824 \<le> length (fd file) \<longrightarrow>
        upload ev req w
          = (UServerError (UploadRejected E_EXCEEDS_UPLOAD_LIMIT),
             log (LogError ''File upload error:'') w))"
proof (intro conjI impI allI)
  show "fst (upload ev req w) = UServerError (UploadRejected E_EXCEEDS_UPLOAD_LIMIT)
          \<longleftrightarrow> 1073741824 \<le> sum_list (map (\<lambda>f. length (fd f)) (image_field req))"
    using upload_file_not_rejected_by_limit [of ev req _ w E_EXCEEDS_UPLOAD_LIMIT]
    by (auto simp: upload_def skipper_upload_def maxBytes_def split: list.splits)
next
  assume a: "1073741824 \<le> sum_list (map (\<lambda>f. length (fd f)) (image_field req))"
  then show "snd (upload ev req w) = log (LogError ''File upload error:'') w"
    by (simp add: upload_def skipper_upload_def maxBytes_def)
  then show "entries (snd (upload ev req w)) = entries w"
    and "impressions (snd (upload ev req w)) = impressions w"
    and "added w (snd (upload ev req w)) = [LogError ''File upload error:'']"
    by (simp_all add: added_def)
next
  fix uf rest
  assume "image_field req = uf # rest \<and> 1073741824 \<le> length (fd uf)"
  then show "upload ev req w
               = (UServerError (UploadRejected E_EXCEEDS_UPLOAD_LIMIT),
                  log (LogError ''File upload error:'') w)"
    by (simp add: upload_def skipper_upload_def maxBytes_def)
qed

theorem upload_size_limit_witness:
  "image_field (req0\<lparr>image_field := [huge_file]\<rparr>) = huge_file # []
   \<and> length (fd huge_file) = 1073741825
   \<and> fst (upload env0 (req0\<lparr>image_field := [huge_file]\<rparr>) world0)
        = UServerError (UploadRejected E_EXCEEDS_UPLOAD_LIMIT)
   \<and> entries (snd (upload env0 (req0\<lparr>image_field := [huge_file]\<rparr>) world0)) = [(''.gitkeep'', [])]
   \<and> trace (snd (upload env0 (req0\<lparr>image_field := [huge_file]\<rparr>) world0))
        = [LogError ''File upload error:'']
   \<and> sum_list (map (\<lambda>f. length (fd f)) (image_field req0)) = 4
   \<and> fst (upload env0 req0 world0) = UOk r_notes"
proof -
  have a: "image_field (req0\<lparr>image_field := [huge_file]\<rparr>) = huge_file # []" by simp
  have b: "length (fd huge_file) = 1073741825" by (simp add: huge_file_def)
  then have c: "image_field (req0\<lparr>image_field := [huge_file]\<rparr>) = huge_file # []
                \<and> 1073741824 \<le> length (fd huge_file)"
    by simp
  have d: "sum_list (map (\<lambda>f. length (fd f)) (image_field req0)) = 4"
    by (simp add: req0_def notes_txt_def)
  from upload_size_limit [of env0 "req0\<lparr>image_field := [huge_file]\<rparr>" world0] c
  have "upload env0 (req0\<lparr>image_field := [huge_file]\<rparr>) world0
          = (UServerError (UploadRejected E_EXCEEDS_UPLOAD_LIMIT),
             log (LogError ''File upload error:'') world0)"
    by blast
  with a b d upload_env0_req0 show ?thesis by (simp add: world0_def)
qed

text \<open>
  The claim as stated makes 1073741824 bytes the largest payload: a payload of exactly
  that size does not exceed it, and yet it is rejected.
\<close>

theorem upload_size_limit_counterexample:
  "length (fd limit_file) = 1073741824
   \<and> fst (upload env0 (req0\<lparr>image_field := [limit_file]\<rparr>) world0)
        = UServerError (UploadRejected E_EXCEEDS_UPLOAD_LIMIT)
   \<and> trace (snd (upload env0 (req0\<lparr>image_field := [limit_file]\<rparr>) world0))
        = [LogError ''File upload error:'']"
  by (simp add: upload_def skipper_upload_def maxBytes_def limit_file_def world0_def)

section \<open>Properties of delete\<close>

subsection \<open>Auxiliary facts: the directory\<close>


lemma unlinkAsync_None:
  assumes "unlinkAsync ev n w = (None, w')"
  shows "entries w' = filter (\<lambda>e. fst e \<noteq> n) (entries w)" and "impressions w' = impressions w"
    and "existsSync w n" and "\<not> unlink_fails ev n"
  using assms by (auto simp: unlinkAsync_def unlink_fails_def Let_def split: if_splits)


lemma unlinkAsync_succeeds:
  assumes "existsSync w n" and "\<not> unlink_fails ev n"
  shows "\<exists>w'. unlinkAsync ev n w = (None, w')"
  using assms by (simp add: unlinkAsync_def unlink_fails_def existsSync_def Let_def)

lemma unlinkAsync_fails:
  assumes "existsSync w n" and "unlink_fails ev n"
  shows "unlinkAsync ev n w = (Some (unlink_error n), log (FsUnlink n) w)"
  using assms
  by (auto simp: unlinkAsync_def unlink_fails_def unlink_error_def existsSync_def Let_def)

lemma names_filter:
  "fst ` set (filter (\<lambda>e. fst e \<noteq> n) xs) = fst ` set xs - {n}"
  for xs :: "(string \<times> buffer) list"
  by (induction xs) auto

lemma names_after_unlink:
  assumes "entries w1 = filter (\<lambda>e. fst e \<noteq> n) (entries w)"
  shows "fst ` set (entries w1) = fst ` set (entries w) - {n}"
  unfolding assms by (rule names_filter)






























subsection \<open>The cascade over the dependent records\<close>




subsection \<open>The local files of a deleted record\<close>




subsection \<open>A fetch that fails\<close>

text \<open>
  Claim C5. For every delete of a non-empty id whose fetch is rejected, the delete ends
  there: it answers 404 when the rejection carries the status 404 and with the server error
  of line 240 otherwise, the asset directory and the registry records are as before, and
  the trace shows the fetch and its log line only, so no file is touched and no further
  registry call is made.
\<close>

theorem delete_fetch_failure:
  assumes "id' \<noteq> []"
    and "get_reply ev id' = Rejected r"
  shows "fst (delete ev (Some id') w)
           = (if r = Some 404 then DNotFound else DServerError FetchDocumentReferenceFailed)
         \<and> entries (snd (delete ev (Some id') w)) = entries w
         \<and> impressions (snd (delete ev (Some id') w)) = impressions w
         \<and> trace (snd (delete ev (Some id') w))
             = trace w @ [RegGetDoc id', LogError ''Failed to fetch DocumentReference:'']"
  using assms by (simp add: delete_def Let_def)

theorem delete_fetch_failure_witness:
  "get_reply env0 ''gone'' = Rejected (Some 404)
   \<and> fst (delete env0 (Some ''gone'') world_d1) = DNotFound
   \<and> entries (snd (delete env0 (Some ''gone'') world_d1)) = entries world_d1
   \<and> trace (snd (delete env0 (Some ''gone'') world_d1))
       = [RegGetDoc ''gone'', LogError ''Failed to fetch DocumentReference:'']
   \<and> get_reply (env0\<lparr>get_reply := (\<lambda>i. Rejected None)\<rparr>) ''gone'' = Rejected None
   \<and> fst (delete (env0\<lparr>get_reply := (\<lambda>i. Rejected None)\<rparr>) (Some ''gone'') world_d1)
       = DServerError FetchDocumentReferenceFailed"
proof -
  have n: "''gone'' \<noteq> []" by simp
  have a: "get_reply env0 ''gone'' = Rejected (Some 404)"
    by (simp add: env0_def)
  have b: "get_reply (env0\<lparr>get_reply := (\<lambda>i. Rejected None)\<rparr>) ''gone'' = Rejected None"
    by simp
  show ?thesis
    using a b delete_fetch_failure [OF n a, of world_d1] delete_fetch_failure [OF n b, of world_d1]
    by (simp add: world_d1_def)
qed

section \<open>Properties of purge\<close>

subsection \<open>Auxiliary facts\<close>

lemmas purge_defs = purge_def readdir_def unlinkAsync_def existsSync_def directory_name_def
  log_def Let_def

text \<open>The loop over a duplicate-free listing of existing names removes the listed names
  other than the marker, up to the first one whose unlink fails.\<close>

lemma purge_files_clears:
  assumes "\<forall>n \<in> set ns. n \<noteq> ''.gitkeep'' \<longrightarrow> \<not> unlink_fails ev n"
  shows "distinct ns \<Longrightarrow> set ns \<subseteq> fst ` set (entries w) \<Longrightarrow>
         \<exists>w'. purge_files ev ns w = (None, w')
              \<and> entries w' = filter (\<lambda>e. fst e \<notin> set ns - {''.gitkeep''}) (entries w)"
  using assms
proof (induction ns arbitrary: w)
  case Nil
  then show ?case by simp
next
  case (Cons n ns)
  from Cons.prems have faults: "\<forall>n \<in> set ns. n \<noteq> ''.gitkeep'' \<longrightarrow> \<not> unlink_fails ev n"
    and dist: "distinct ns" and fresh: "n \<notin> set ns"
    by simp_all
  show ?case
  proof (cases "n = ''.gitkeep''")
    case True
    from Cons.prems have "set ns \<subseteq> fst ` set (entries w)" by simp
    from Cons.IH [OF dist this faults] obtain w' where
      "purge_files ev ns w = (None, w')"
      "entries w' = filter (\<lambda>e. fst e \<notin> set ns - {''.gitkeep''}) (entries w)"
      by blast
    moreover have "set (n # ns) - {''.gitkeep''} = set ns - {''.gitkeep''}"
      using True by auto
    ultimately show ?thesis using True by simp
  next
    case False
    from Cons.prems have "existsSync w n" and "\<not> unlink_fails ev n"
      using False by (auto simp: existsSync_def)
    from unlinkAsync_succeeds [OF this] obtain w1 where u: "unlinkAsync ev n w = (None, w1)"
      by blast
    have e1: "entries w1 = filter (\<lambda>e. fst e \<noteq> n) (entries w)"
      by (rule unlinkAsync_None(1) [OF u])
    have "set ns \<subseteq> fst ` set (entries w)"
      using Cons.prems(2) by simp
    then have "set ns \<subseteq> fst ` set (entries w1)"
      using fresh by (simp add: names_after_unlink [OF e1] subset_Diff_insert)
    from Cons.IH [OF dist this faults] obtain w' where
      p: "purge_files ev ns w1 = (None, w')"
      and e: "entries w' = filter (\<lambda>e. fst e \<notin> set ns - {''.gitkeep''}) (entries w1)"
      by blast
    have "(\<lambda>x :: string \<times> buffer. fst x \<noteq> n \<and> fst x \<notin> set ns - {''.gitkeep''})
            = (\<lambda>x. fst x \<notin> set (n # ns) - {''.gitkeep''})"
      using False by (auto simp: fun_eq_iff)
    then have "entries w' = filter (\<lambda>e. fst e \<notin> set (n # ns) - {''.gitkeep''}) (entries w)"
      unfolding e e1 filter_filter by (rule arg_cong)
    with p u False show ?thesis by simp
  qed
qed

lemma purge_files_stops:
  assumes "n \<noteq> ''.gitkeep''" and "unlink_fails ev n"
  shows "\<forall>m \<in> set pre. m \<noteq> ''.gitkeep'' \<longrightarrow> \<not> unlink_fails ev m \<Longrightarrow>
         distinct (pre @ n # post) \<Longrightarrow> set (pre @ n # post) \<subseteq> fst ` set (entries w) \<Longrightarrow>
         \<exists>w'. purge_files ev (pre @ n # post) w = (Some (unlink_error n), w')
              \<and> entries w' = filter (\<lambda>e. fst e \<notin> set pre - {''.gitkeep''}) (entries w)"
proof (induction pre arbitrary: w)
  case Nil
  then have "existsSync w n" by (simp add: existsSync_def)
  from unlinkAsync_fails [OF this assms(2)] assms(1) show ?case
    by (simp add: log_def)
next
  case (Cons m pre)
  from Cons.prems have faults: "\<forall>m \<in> set pre. m \<noteq> ''.gitkeep'' \<longrightarrow> \<not> unlink_fails ev m"
    and dist: "distinct (pre @ n # post)" and fresh: "m \<notin> set (pre @ n # post)"
    and names: "set (pre @ n # post) \<subseteq> fst ` set (entries w)"
    by simp_all
  show ?case
  proof (cases "m = ''.gitkeep''")
    case True
    from Cons.IH [OF faults dist names] obtain w' where
      "purge_files ev (pre @ n # post) w = (Some (unlink_error n), w')"
      "entries w' = filter (\<lambda>e. fst e \<notin> set pre - {''.gitkeep''}) (entries w)"
      by blast
    moreover have "set (m # pre) - {''.gitkeep''} = set pre - {''.gitkeep''}"
      using True by auto
    ultimately show ?thesis using True by simp
  next
    case False
    from Cons.prems have "existsSync w m" and "\<not> unlink_fails ev m"
      using False by (auto simp: existsSync_def)
    from unlinkAsync_succeeds [OF this] obtain w1 where u: "unlinkAsync ev m w = (None, w1)"
      by blast
    have e1: "entries w1 = filter (\<lambda>e. fst e \<noteq> m) (entries w)"
      by (rule unlinkAsync_None(1) [OF u])
    from names have "set (pre @ n # post) \<subseteq> fst ` set (entries w1)"
      using fresh by (simp only: names_after_unlink [OF e1] subset_Diff_insert) simp
    from Cons.IH [OF faults dist this] obtain w' where
      p: "purge_files ev (pre @ n # post) w1 = (Some (unlink_error n), w')"
      and e: "entries w' = filter (\<lambda>e. fst e \<notin> set pre - {''.gitkeep''}) (entries w1)"
      by blast
    have "(\<lambda>x :: string \<times> buffer. fst x \<noteq> m \<and> fst x \<notin> set pre - {''.gitkeep''})
            = (\<lambda>x. fst x \<notin> set (m # pre) - {''.gitkeep''})"
      using False by (auto simp: fun_eq_iff)
    then have "entries w' = filter (\<lambda>e. fst e \<notin> set (m # pre) - {''.gitkeep''}) (entries w)"
      unfolding e e1 filter_filter by (rule arg_cong)
    with p u False show ?thesis by simp
  qed
qed

lemma purge_files_marker_only:
  "set ns \<subseteq> {''.gitkeep''} \<Longrightarrow> purge_files ev ns w = (None, w)"
  by (induction ns) auto

subsection \<open>Purging the directory\<close>

text \<open>
  Claim C9, as amended. For every state of the asset directory:

  \<^item> when listing the directory fails, purge answers with a server error and removes
    nothing;

  \<^item> when the listing succeeds and the unlink of no listed entry other than the marker
    fails, purge answers with success and leaves exactly the entries named \<open>.gitkeep\<close>; a
    second purge right after it answers with success too and leaves the directory as the
    first one left it;

  \<^item> when the listing succeeds and \<open>n\<close> is the first listed entry other than the marker
    whose unlink fails, purge stops there: it answers with the server error of that
    unlink, the entries listed before \<open>n\<close> other than the marker are removed, and every
    other entry stays.
\<close>

theorem purge_clears_directory:
  "(readdir_fault ev \<longrightarrow>
      fst (purge ev w) = PServerError (PurgeFailed (EIO ''assets/images''))
      \<and> entries (snd (purge ev w)) = entries w)
   \<and> (\<not> readdir_fault ev
        \<and> (\<forall>n \<in> set (readdir w). n \<noteq> ''.gitkeep'' \<longrightarrow> \<not> unlink_fails ev n) \<longrightarrow>
      fst (purge ev w) = POk
      \<and> entries (snd (purge ev w)) = filter (\<lambda>e. fst e = ''.gitkeep'') (entries w)
      \<and> fst (purge ev (snd (purge ev w))) = POk
      \<and> entries (snd (purge ev (snd (purge ev w)))) = entries (snd (purge ev w)))
   \<and> (\<forall>pre n post.
        \<not> readdir_fault ev \<and> readdir w = pre @ n # post
        \<and> (\<forall>m \<in> set pre. m \<noteq> ''.gitkeep'' \<longrightarrow> \<not> unlink_fails ev m)
        \<and> n \<noteq> ''.gitkeep'' \<and> unlink_fails ev n \<longrightarrow>
      fst (purge ev w) = PServerError (PurgeFailed (unlink_error n))
      \<and> entries (snd (purge ev w))
          = filter (\<lambda>e. fst e \<notin> set pre - {''.gitkeep''}) (entries w))"
proof (intro conjI allI impI)
  let ?w0 = "log FsReaddir w"
  have r: "readdir ?w0 = readdir w" by (simp add: readdir_def)
  have d: "distinct (readdir w)" and s: "set (readdir w) \<subseteq> fst ` set (entries ?w0)"
    by (simp_all add: readdir_def)
  {
    assume "readdir_fault ev"
    then show "fst (purge ev w) = PServerError (PurgeFailed (EIO ''assets/images''))"
      and "entries (snd (purge ev w)) = entries w"
      by (simp_all add: purge_def Let_def)
  }
  {
    assume a: "\<not> readdir_fault ev
                \<and> (\<forall>n \<in> set (readdir w). n \<noteq> ''.gitkeep'' \<longrightarrow> \<not> unlink_fails ev n)"
    then have nf: "\<not> readdir_fault ev"
      and ok: "\<forall>n \<in> set (readdir w). n \<noteq> ''.gitkeep'' \<longrightarrow> \<not> unlink_fails ev n"
      by simp_all
    from purge_files_clears [OF ok d s] obtain w' where
      p: "purge_files ev (readdir w) ?w0 = (None, w')"
      and e: "entries w' = filter (\<lambda>e. fst e \<notin> set (readdir w) - {''.gitkeep''}) (entries ?w0)"
      by blast
    have first: "purge ev w = (POk, w')"
      using nf p by (simp add: purge_def Let_def r)
    have "(fst x \<notin> set (readdir w) - {''.gitkeep''}) = (fst x = ''.gitkeep'')"
      if "x \<in> set (entries w)" for x
      using that by (auto simp: readdir_def)
    then have "filter (\<lambda>e. fst e \<notin> set (readdir w) - {''.gitkeep''}) (entries w)
                 = filter (\<lambda>e. fst e = ''.gitkeep'') (entries w)"
      by (intro filter_cong refl)
    then have e': "entries w' = filter (\<lambda>e. fst e = ''.gitkeep'') (entries w)"
      unfolding e by simp
    let ?w1 = "log FsReaddir w'"
    have "set (readdir ?w1) \<subseteq> {''.gitkeep''}"
      by (auto simp: readdir_def e')
    then have "purge_files ev (readdir ?w1) ?w1 = (None, ?w1)"
      by (rule purge_files_marker_only)
    then have second: "purge ev w' = (POk, ?w1)"
      using nf by (simp add: purge_def Let_def)
    from first second e'
    show "fst (purge ev w) = POk"
      and "entries (snd (purge ev w)) = filter (\<lambda>e. fst e = ''.gitkeep'') (entries w)"
      and "fst (purge ev (snd (purge ev w))) = POk"
      and "entries (snd (purge ev (snd (purge ev w)))) = entries (snd (purge ev w))"
      by simp_all
  }
  {
    fix pre n post
    assume a: "\<not> readdir_fault ev \<and> readdir w = pre @ n # post
                \<and> (\<forall>m \<in> set pre. m \<noteq> ''.gitkeep'' \<longrightarrow> \<not> unlink_fails ev m)
                \<and> n \<noteq> ''.gitkeep'' \<and> unlink_fails ev n"
    then have nf: "\<not> readdir_fault ev" and l: "readdir w = pre @ n # post"
      and ok: "\<forall>m \<in> set pre. m \<noteq> ''.gitkeep'' \<longrightarrow> \<not> unlink_fails ev m"
      and n: "n \<noteq> ''.gitkeep''" and f: "unlink_fails ev n"
      by simp_all
    from purge_files_stops [OF n f ok d [unfolded l] s [unfolded l]] obtain w' where
      p: "purge_files ev (readdir w) ?w0 = (Some (unlink_error n), w')"
      and e: "entries w' = filter (\<lambda>e. fst e \<notin> set pre - {''.gitkeep''}) (entries ?w0)"
      unfolding l by blast
    from nf p e
    show "fst (purge ev w) = PServerError (PurgeFailed (unlink_error n))"
      and "entries (snd (purge ev w))
             = filter (\<lambda>e. fst e \<notin> set pre - {''.gitkeep''}) (entries w)"
      by (simp_all add: purge_def Let_def r)
  }
qed

theorem purge_clears_directory_witness:
  "\<not> readdir_fault env0
   \<and> readdir world_d1 = [''.gitkeep'', ''a.png'', ''a_thumb.png'']
   \<and> \<not> unlink_fails env0 ''a.png'' \<and> \<not> unlink_fails env0 ''a_thumb.png''
   \<and> fst (purge env0 world_d1) = POk
   \<and> entries (snd (purge env0 world_d1)) = [(''.gitkeep'', [])]
   \<and> fst (purge env0 (snd (purge env0 world_d1))) = POk
   \<and> entries (snd (purge env0 (snd (purge env0 world_d1)))) = [(''.gitkeep'', [])]
   \<and> readdir_fault env_readdir_fault
   \<and> fst (purge env_readdir_fault world_d1) = PServerError (PurgeFailed (EIO ''assets/images''))
   \<and> entries (snd (purge env_readdir_fault world_d1)) = entries world_d1
   \<and> \<not> readdir_fault env_unlink_fault
   \<and> unlink_fails env_unlink_fault ''a.png''
   \<and> fst (purge env_unlink_fault world_d1) = PServerError (PurgeFailed (EIO ''a.png''))
   \<and> entries (snd (purge env_unlink_fault world_d1)) = entries world_d1"
proof -
  have a: "\<not> readdir_fault env0" by (simp add: env0_def)
  have l: "readdir world_d1 = [''.gitkeep'', ''a.png'', ''a_thumb.png'']"
    by (simp add: readdir_def world_d1_def)
  have u: "\<not> unlink_fails env0 ''a.png''" "\<not> unlink_fails env0 ''a_thumb.png''"
    by (simp_all add: unlink_fails_def directory_name_def env0_def)
  have b: "\<forall>n \<in> set (readdir world_d1). n \<noteq> ''.gitkeep'' \<longrightarrow> \<not> unlink_fails env0 n"
    unfolding l using u by simp
  have e: "filter (\<lambda>e. fst e = ''.gitkeep'') (entries world_d1) = [(''.gitkeep'', [])]"
    by (simp add: world_d1_def)
  note t = purge_clears_directory [of env0 world_d1]
  have first: "fst (purge env0 world_d1) = POk
      \<and> entries (snd (purge env0 world_d1)) = filter (\<lambda>e. fst e = ''.gitkeep'') (entries world_d1)
      \<and> fst (purge env0 (snd (purge env0 world_d1))) = POk
      \<and> entries (snd (purge env0 (snd (purge env0 world_d1)))) = entries (snd (purge env0 world_d1))"
    using t [THEN conjunct2, THEN conjunct1, THEN mp, OF conjI, OF a b] .
  have rf: "readdir_fault env_readdir_fault" by (simp add: env_readdir_fault_def)
  have second: "fst (purge env_readdir_fault world_d1) = PServerError (PurgeFailed (EIO ''assets/images''))
      \<and> entries (snd (purge env_readdir_fault world_d1)) = entries world_d1"
    using purge_clears_directory [of env_readdir_fault world_d1, THEN conjunct1, THEN mp, OF rf] .
  have nf: "\<not> readdir_fault env_unlink_fault"
    by (simp add: env_unlink_fault_def env_d1_def env0_def)
  have uf: "unlink_fails env_unlink_fault ''a.png''"
    by (simp add: unlink_fails_def env_unlink_fault_def)
  have ue: "unlink_error ''a.png'' = EIO ''a.png''"
    by (simp add: unlink_error_def directory_name_def)
  have h: "\<not> readdir_fault env_unlink_fault
           \<and> readdir world_d1 = [''.gitkeep''] @ ''a.png'' # [''a_thumb.png'']
           \<and> (\<forall>m \<in> set [''.gitkeep'']. m \<noteq> ''.gitkeep'' \<longrightarrow> \<not> unlink_fails env_unlink_fault m)
           \<and> ''a.png'' \<noteq> ''.gitkeep'' \<and> unlink_fails env_unlink_fault ''a.png''"
    using nf uf l by simp
  have third: "fst (purge env_unlink_fault world_d1) = PServerError (PurgeFailed (unlink_error ''a.png''))
      \<and> entries (snd (purge env_unlink_fault world_d1))
          = filter (\<lambda>e. fst e \<notin> set [''.gitkeep''] - {''.gitkeep''}) (entries world_d1)"
    using purge_clears_directory [of env_unlink_fault world_d1, THEN conjunct2, THEN conjunct2,
        THEN spec, THEN spec, THEN spec, THEN mp, OF h] .
  from first second third e a l u rf nf uf ue show ?thesis
    by simp
qed

text \<open>
  The claim as stated (purge succeeds in every state of the directory) fails: when the
  unlink of \<open>a.png\<close> faults, purge answers with a server error and the directory is as it
  was, \<open>a_thumb.png\<close> included.
\<close>

theorem purge_counterexample:
  "readdir world_d1 = [''.gitkeep'', ''a.png'', ''a_thumb.png'']
   \<and> fst (purge env_unlink_fault world_d1) = PServerError (PurgeFailed (EIO ''a.png''))
   \<and> entries (snd (purge env_unlink_fault world_d1)) = entries world_d1
   \<and> existsSync (snd (purge env_unlink_fault world_d1)) ''a.png''
   \<and> existsSync (snd (purge env_unlink_fault world_d1)) ''a_thumb.png''"
  by (simp add: purge_defs env_unlink_fault_def env_d1_def env0_def world_d1_def)

end
